theory Spec2Isabelle
  imports Main "HOL-Library.Word"
begin

section \<open>The quoting strategy of \<^verbatim>\<open>TraderOne.py\<close>\<close>

text \<open>
  The class \<^verbatim>\<open>AutoTrader\<close> is a set of callbacks over one mutable object. Each callback
  is embedded as a function from the object's state (and the callback's arguments) to the
  new state; the orders it sends to the host are returned as a list, in the order sent.
  A callback that can raise returns a sum, \<open>Inl\<close> the exception.

  Python integers are unbounded, so every number is an \<open>int\<close>; \<^verbatim>\<open>//\<close> on integers is
  floor division, which is \<open>div\<close> on \<open>int\<close>. The calls to \<^verbatim>\<open>self.logger\<close> change nothing
  of the object and are left out, except for the argument \<^verbatim>\<open>error_message.decode()\<close>,
  which is evaluated before the logger is called and can raise.
\<close>

subsection \<open>Data\<close>

type_synonym bytes = "8 word list"

datatype py_error = IndexError | UnicodeDecodeError

datatype side = SELL | BUY

datatype lifespan = FILL_AND_KILL | GOOD_FOR_DAY

text \<open>The two requests of the host interface, \<^verbatim>\<open>send_insert_order\<close> and \<^verbatim>\<open>send_cancel_order\<close>.\<close>

datatype command =
    InsertOrder int side int int lifespan
  | CancelOrder int

definition LOT_SIZE :: int where
  "LOT_SIZE = 10"

definition POSITION_LIMIT :: int where
  "POSITION_LIMIT = 100"

text \<open>
  The fields assigned in \<^verbatim>\<open>__init__\<close>. \<open>order_ids\<close> is \<^verbatim>\<open>itertools.count(1)\<close>, kept as the
  value that the next call of \<^verbatim>\<open>next\<close> returns.
\<close>

record trader =
  order_ids :: int
  bids :: "int set"
  asks :: "int set"
  ask_id :: int
  ask_price :: int
  bid_id :: int
  bid_price :: int
  position :: int

definition AutoTrader_init :: trader where
  "AutoTrader_init =
     \<lparr>order_ids = 1, bids = {}, asks = {},
      ask_id = 0, ask_price = 0, bid_id = 0, bid_price = 0, position = 0\<rparr>"

subsection \<open>Order filled, order status, error\<close>

definition on_order_filled_message :: "trader \<Rightarrow> int \<Rightarrow> int \<Rightarrow> int \<Rightarrow> trader" where
  "on_order_filled_message self client_order_id price volume =
     (if client_order_id \<in> bids self then self\<lparr>position := position self + volume\<rparr>
      else if client_order_id \<in> asks self then self\<lparr>position := position self - volume\<rparr>
      else self)"

definition on_order_status_message :: "trader \<Rightarrow> int \<Rightarrow> int \<Rightarrow> int \<Rightarrow> int \<Rightarrow> trader" where
  "on_order_status_message self client_order_id fill_volume remaining_volume fees =
     (if remaining_volume = 0 then
        (let s1 = (if client_order_id = bid_id self then self\<lparr>bid_id := 0\<rparr>
                   else if client_order_id = ask_id self then self\<lparr>ask_id := 0\<rparr>
                   else self)
         in s1\<lparr>bids := bids s1 - {client_order_id}, asks := asks s1 - {client_order_id}\<rparr>)
      else self)"

text \<open>
  \<^verbatim>\<open>bytes.decode\<close> belongs to the language, not to this file: it is a parameter \<open>decode\<close>,
  which either returns the text or raises.
\<close>

definition on_error_message ::
  "(bytes \<Rightarrow> py_error + string) \<Rightarrow> trader \<Rightarrow> int \<Rightarrow> bytes \<Rightarrow> py_error + trader" where
  "on_error_message decode self client_order_id error_message =
     (case decode error_message of
        Inl e \<Rightarrow> Inl e
      | Inr text \<Rightarrow>
          Inr (if client_order_id \<noteq> 0 \<and>
                  (client_order_id \<in> bids self \<or> client_order_id \<in> asks self)
               then on_order_status_message self client_order_id 0 0 0
               else self))"

text \<open>The hedge-fill and trade-tick callbacks only log.\<close>

definition on_hedge_filled_message :: "trader \<Rightarrow> int \<Rightarrow> int \<Rightarrow> int \<Rightarrow> trader" where
  "on_hedge_filled_message self client_order_id price volume = self"

definition on_trade_ticks_message ::
  "trader \<Rightarrow> int \<Rightarrow> int \<Rightarrow> int list \<Rightarrow> int list \<Rightarrow> int list \<Rightarrow> int list \<Rightarrow> trader" where
  "on_trade_ticks_message self instrument sequence_number ask_prices ask_volumes
       bid_prices bid_volumes = self"

subsection \<open>Order-book update\<close>

text \<open>\<^verbatim>\<open>xs[0]\<close>: an empty list raises \<^verbatim>\<open>IndexError\<close>.\<close>

definition item0 :: "int list \<Rightarrow> py_error + int" where
  "item0 xs = (case xs of [] \<Rightarrow> Inl IndexError | x # _ \<Rightarrow> Inr x)"

text \<open>Lines 79 to 90: the pair (\<^verbatim>\<open>new_bid_price\<close>, \<^verbatim>\<open>new_ask_price\<close>).\<close>

definition new_prices :: "int \<Rightarrow> int \<Rightarrow> int \<Rightarrow> int \<times> int" where
  "new_prices pos best_bid best_ask =
     (let mid_price = (best_bid + best_ask) div 2
      in if pos > 0 then (mid_price - 10, mid_price)
         else if pos < 0 then (mid_price, mid_price + 10)
         else (best_bid, best_ask))"

text \<open>Lines 93 to 98: cancel the resting orders whose price has moved.\<close>

definition cancel_bid :: "trader \<Rightarrow> int \<Rightarrow> trader \<times> command list" where
  "cancel_bid self new_bid_price =
     (if bid_id self \<noteq> 0 \<and> new_bid_price \<noteq> bid_price self \<and> new_bid_price \<noteq> 0
      then (self\<lparr>bid_id := 0\<rparr>, [CancelOrder (bid_id self)])
      else (self, []))"

definition cancel_ask :: "trader \<Rightarrow> int \<Rightarrow> trader \<times> command list" where
  "cancel_ask self new_ask_price =
     (if ask_id self \<noteq> 0 \<and> new_ask_price \<noteq> ask_price self \<and> new_ask_price \<noteq> 0
      then (self\<lparr>ask_id := 0\<rparr>, [CancelOrder (ask_id self)])
      else (self, []))"

definition cancel_stale :: "trader \<Rightarrow> int \<Rightarrow> int \<Rightarrow> trader \<times> command list" where
  "cancel_stale self new_bid_price new_ask_price =
     (let (s1, c1) = cancel_bid self new_bid_price;
          (s2, c2) = cancel_ask s1 new_ask_price
      in (s2, c1 @ c2))"

text \<open>Lines 101 to 109 and 111 to 119: insert a new order, or withdraw at price 0.\<close>

definition place_bid :: "trader \<Rightarrow> int \<Rightarrow> trader \<times> command list" where
  "place_bid self new_bid_price =
     (if bid_id self = 0 \<and> new_bid_price \<noteq> 0 \<and> position self + LOT_SIZE < POSITION_LIMIT
      then (let n = order_ids self
            in (self\<lparr>order_ids := n + 1, bid_id := n, bid_price := new_bid_price,
                      bids := insert n (bids self)\<rparr>,
                [InsertOrder n BUY new_bid_price LOT_SIZE GOOD_FOR_DAY]))
      else if bid_id self \<noteq> 0 \<and> new_bid_price = 0
      then (self\<lparr>bid_id := 0\<rparr>, [CancelOrder (bid_id self)])
      else (self, []))"

definition place_ask :: "trader \<Rightarrow> int \<Rightarrow> trader \<times> command list" where
  "place_ask self new_ask_price =
     (if ask_id self = 0 \<and> new_ask_price \<noteq> 0 \<and> position self - LOT_SIZE > - POSITION_LIMIT
      then (let n = order_ids self
            in (self\<lparr>order_ids := n + 1, ask_id := n, ask_price := new_ask_price,
                      asks := insert n (asks self)\<rparr>,
                [InsertOrder n SELL new_ask_price LOT_SIZE GOOD_FOR_DAY]))
      else if ask_id self \<noteq> 0 \<and> new_ask_price = 0
      then (self\<lparr>ask_id := 0\<rparr>, [CancelOrder (ask_id self)])
      else (self, []))"

text \<open>Lines 92 to 119, for given new prices.\<close>

definition requote :: "trader \<Rightarrow> int \<Rightarrow> int \<Rightarrow> trader \<times> command list" where
  "requote self new_bid_price new_ask_price =
     (let (s1, c1) = cancel_stale self new_bid_price new_ask_price;
          (s2, c2) = place_bid s1 new_bid_price;
          (s3, c3) = place_ask s2 new_ask_price
      in (s3, c1 @ c2 @ c3))"

text \<open>
  The callback. \<^verbatim>\<open>Instrument.FUTURE\<close> is declared by the host library; it is the parameter
  \<open>future\<close>. Line 79 reads \<^verbatim>\<open>bid_prices[0]\<close>, then \<^verbatim>\<open>ask_prices[0]\<close>, before anything is
  assigned.
\<close>

definition on_order_book_update_message ::
  "int \<Rightarrow> trader \<Rightarrow> int \<Rightarrow> int \<Rightarrow> int list \<Rightarrow> int list \<Rightarrow> int list \<Rightarrow> int list
     \<Rightarrow> py_error + trader \<times> command list" where
  "on_order_book_update_message future self instrument sequence_number ask_prices ask_volumes
       bid_prices bid_volumes =
     (if instrument = future then
        (case item0 bid_prices of
           Inl e \<Rightarrow> Inl e
         | Inr best_bid \<Rightarrow>
             (case item0 ask_prices of
                Inl e \<Rightarrow> Inl e
              | Inr best_ask \<Rightarrow>
                  (let (new_bid_price, new_ask_price) =
                         new_prices (position self) best_bid best_ask
                   in Inr (requote self new_bid_price new_ask_price))))
      else Inr (self, []))"

subsection \<open>The host's event feed\<close>

datatype event =
    OrderBookUpdate int int "int list" "int list" "int list" "int list"
  | TradeTicks int int "int list" "int list" "int list" "int list"
  | OrderFilled int int int
  | OrderStatus int int int int
  | HedgeFilled int int int
  | Error int bytes

definition handle ::
  "int \<Rightarrow> (bytes \<Rightarrow> py_error + string) \<Rightarrow> trader \<Rightarrow> event
     \<Rightarrow> py_error + trader \<times> command list" where
  "handle future decode self e =
     (case e of
        OrderBookUpdate i n ap av bp bv \<Rightarrow> on_order_book_update_message future self i n ap av bp bv
      | TradeTicks i n ap av bp bv \<Rightarrow> Inr (on_trade_ticks_message self i n ap av bp bv, [])
      | OrderFilled c p v \<Rightarrow> Inr (on_order_filled_message self c p v, [])
      | OrderStatus c f r fe \<Rightarrow> Inr (on_order_status_message self c f r fe, [])
      | HedgeFilled c p v \<Rightarrow> Inr (on_hedge_filled_message self c p v, [])
      | Error c m \<Rightarrow>
          (case on_error_message decode self c m of
             Inl err \<Rightarrow> Inl err
           | Inr s \<Rightarrow> Inr (s, [])))"

text \<open>
  A run of callbacks; an exception ends it. (Both exceptions of this file are raised
  before the callback has assigned anything.)
\<close>

fun run ::
  "int \<Rightarrow> (bytes \<Rightarrow> py_error + string) \<Rightarrow> trader \<Rightarrow> event list \<Rightarrow> py_error + trader" where
  "run future decode self [] = Inr self"
| "run future decode self (e # es) =
     (case handle future decode self e of
        Inl err \<Rightarrow> Inl err
      | Inr (s, cmds) \<Rightarrow> run future decode s es)"

inductive reachable :: "int \<Rightarrow> (bytes \<Rightarrow> py_error + string) \<Rightarrow> trader \<Rightarrow> bool"
  for future :: int and decode :: "bytes \<Rightarrow> py_error + string" where
  start: "reachable future decode AutoTrader_init"
| step: "reachable future decode s \<Longrightarrow> handle future decode s e = Inr (s', cmds)
           \<Longrightarrow> reachable future decode s'"

text \<open>
  A strict 7-bit decoder for the concrete runs below. On bytes below 128 it returns what
  Python's default (UTF-8) decoder returns; on the byte 255, which occurs in no UTF-8
  sequence, it raises as that decoder does.
\<close>

definition decode_ascii :: "bytes \<Rightarrow> py_error + string" where
  "decode_ascii bs =
     (if list_all (\<lambda>b. b < 128) bs then Inr (map (\<lambda>b. char_of (unat b)) bs)
      else Inl UnicodeDecodeError)"

text \<open>The insert requests of one side among the requests sent.\<close>

fun is_insert :: "side \<Rightarrow> command \<Rightarrow> bool" where
  "is_insert sd (InsertOrder n sd' p v l) = (sd' = sd)"
| "is_insert sd (CancelOrder n) = False"

definition inserts :: "side \<Rightarrow> command list \<Rightarrow> command list" where
  "inserts sd cmds = filter (is_insert sd) cmds"

subsection \<open>Auxiliary predicates\<close>

text \<open>
  An id that occupies no slot and is in neither set.
\<close>

definition cleared :: "trader \<Rightarrow> int \<Rightarrow> bool" where
  "cleared s c \<longleftrightarrow>
     c \<notin> bids s \<and> c \<notin> asks s \<and> (c = 0 \<or> (c \<noteq> bid_id s \<and> c \<noteq> ask_id s))"

text \<open>
  The bookkeeping invariant: every tracked id has been drawn from the counter, no id is on
  both sides, and an occupied slot holds a tracked id of its side.
\<close>

definition ids_ok :: "trader \<Rightarrow> bool" where
  "ids_ok s \<longleftrightarrow>
     1 \<le> order_ids s \<and>
     (\<forall>i \<in> bids s. 1 \<le> i \<and> i < order_ids s) \<and>
     (\<forall>i \<in> asks s. 1 \<le> i \<and> i < order_ids s) \<and>
     bids s \<inter> asks s = {} \<and>
     (bid_id s \<noteq> 0 \<longrightarrow> bid_id s \<in> bids s) \<and>
     (ask_id s \<noteq> 0 \<longrightarrow> ask_id s \<in> asks s)"

text \<open>
  An id below the counter that is in neither set: it has been issued and is done with.
\<close>

definition spent :: "trader \<Rightarrow> int \<Rightarrow> bool" where
  "spent s c \<longleftrightarrow> c \<notin> bids s \<and> c \<notin> asks s \<and> c < order_ids s"

subsection \<open>Concrete states and runs\<close>

text \<open>
  The state after the first order-book update of a session (best bid 9900, best ask 10100):
  order 1 rests on the bid and order 2 on the ask.
\<close>

definition quoted_state :: trader where
  "quoted_state =
     \<lparr>order_ids = 3, bids = {1}, asks = {2},
      ask_id = 2, ask_price = 10100, bid_id = 1, bid_price = 9900, position = 0\<rparr>"

text \<open>
  The same with a long position of 50, and the state after the next update (9950, 10050).
\<close>

definition long_state :: trader where
  "long_state = quoted_state\<lparr>position := 50\<rparr>"

definition requoted_state :: trader where
  "requoted_state =
     \<lparr>order_ids = 5, bids = {3, 1}, asks = {4, 2},
      ask_id = 4, ask_price = 10000, bid_id = 3, bid_price = 9990, position = 50\<rparr>"

text \<open>
  A position of 90 with an empty bid slot.
\<close>

definition limit_state :: trader where
  "limit_state =
     \<lparr>order_ids = 3, bids = {1}, asks = {2},
      ask_id = 2, ask_price = 10100, bid_id = 0, bid_price = 9900, position = 90\<rparr>"

text \<open>
  After the terminal status of order 1 and a further update: order 3 rests on the bid.
\<close>

definition rebid_state :: trader where
  "rebid_state =
     \<lparr>order_ids = 4, bids = {3}, asks = {2},
      ask_id = 2, ask_price = 10100, bid_id = 3, bid_price = 9900, position = 0\<rparr>"

text \<open>
  A session in which every bid is filled in full, ten lots at a time, each fill followed by
  its terminal status; the last fill, of order 11, has not been followed by its status yet.
\<close>

definition book :: event where
  "book = OrderBookUpdate 0 1 [10100, 10200] [5, 5] [9900, 9800] [5, 5]"

definition bought :: "int \<Rightarrow> int \<Rightarrow> event list" where
  "bought c p = [book, OrderFilled c p 10, OrderStatus c 10 0 0]"

definition buying_run :: "event list" where
  "buying_run =
     bought 1 9900 @ bought 3 9990 @ bought 5 9990 @ bought 6 9990 @ bought 7 9990 @
     bought 8 9990 @ bought 9 9990 @ bought 10 9990 @ [book, OrderFilled 11 9990 10]"

definition full_state :: trader where
  "full_state =
     \<lparr>order_ids = 12, bids = {11}, asks = {4, 2},
      ask_id = 4, ask_price = 10000, bid_id = 11, bid_price = 9990, position = 90\<rparr>"

section \<open>Properties\<close>

lemmas book_defs =
  on_order_book_update_message_def item0_def new_prices_def requote_def cancel_stale_def
  cancel_bid_def cancel_ask_def place_bid_def place_ask_def LOT_SIZE_def POSITION_LIMIT_def

subsection \<open>The steps of an order-book update\<close>

lemma book_update_requote:
  "on_order_book_update_message fut s fut n (a # as) av (b # bs) bv =
     Inr (requote s (fst (new_prices (position s) b a)) (snd (new_prices (position s) b a)))"
  by (simp add: on_order_book_update_message_def item0_def split_beta)

lemma cancel_stale_split:
  "cancel_stale s nb na =
     (fst (cancel_ask (fst (cancel_bid s nb)) na),
      snd (cancel_bid s nb) @ snd (cancel_ask (fst (cancel_bid s nb)) na))"
  by (simp add: cancel_stale_def split_beta)

lemma requote_split:
  "requote s nb na =
     (fst (place_ask (fst (place_bid (fst (cancel_stale s nb na)) nb)) na),
      snd (cancel_stale s nb na) @ snd (place_bid (fst (cancel_stale s nb na)) nb) @
      snd (place_ask (fst (place_bid (fst (cancel_stale s nb na)) nb)) na))"
  by (simp add: requote_def split_beta)

lemma requote_state:
  "fst (requote s nb na) =
     fst (place_ask (fst (place_bid (fst (cancel_ask (fst (cancel_bid s nb)) na)) nb)) na)"
  by (simp add: requote_def cancel_stale_def split_beta)

lemma inserts_append [simp]: "inserts sd (xs @ ys) = inserts sd xs @ inserts sd ys"
  by (simp add: inserts_def)

lemma cancel_bid_inserts [simp]: "inserts sd (snd (cancel_bid s nb)) = []"
  by (simp add: cancel_bid_def inserts_def)

lemma cancel_ask_inserts [simp]: "inserts sd (snd (cancel_ask s na)) = []"
  by (simp add: cancel_ask_def inserts_def)

lemma cancel_stale_inserts [simp]: "inserts sd (snd (cancel_stale s nb na)) = []"
  by (simp add: cancel_stale_split)

lemma cancel_stale_fields [simp]:
  "position (fst (cancel_stale s nb na)) = position s"
  "order_ids (fst (cancel_stale s nb na)) = order_ids s"
  "bids (fst (cancel_stale s nb na)) = bids s"
  "asks (fst (cancel_stale s nb na)) = asks s"
  "bid_id (fst (cancel_stale s nb na)) =
     (if bid_id s \<noteq> 0 \<and> nb \<noteq> bid_price s \<and> nb \<noteq> 0 then 0 else bid_id s)"
  "ask_id (fst (cancel_stale s nb na)) =
     (if ask_id s \<noteq> 0 \<and> na \<noteq> ask_price s \<and> na \<noteq> 0 then 0 else ask_id s)"
  by (simp_all add: cancel_stale_split cancel_bid_def cancel_ask_def)

lemma cancel_stale_commands:
  "snd (cancel_stale s nb na) =
     (if bid_id s \<noteq> 0 \<and> nb \<noteq> bid_price s \<and> nb \<noteq> 0 then [CancelOrder (bid_id s)] else []) @
     (if ask_id s \<noteq> 0 \<and> na \<noteq> ask_price s \<and> na \<noteq> 0 then [CancelOrder (ask_id s)] else [])"
  by (simp add: cancel_stale_split cancel_bid_def cancel_ask_def)

lemma place_bid_inserts:
  "inserts BUY (snd (place_bid s nb)) =
     (if bid_id s = 0 \<and> nb \<noteq> 0 \<and> position s + LOT_SIZE < POSITION_LIMIT
      then [InsertOrder (order_ids s) BUY nb LOT_SIZE GOOD_FOR_DAY] else [])"
  "inserts SELL (snd (place_bid s nb)) = []"
  by (simp_all add: place_bid_def inserts_def Let_def)

lemma place_ask_inserts:
  "inserts SELL (snd (place_ask s na)) =
     (if ask_id s = 0 \<and> na \<noteq> 0 \<and> position s - LOT_SIZE > - POSITION_LIMIT
      then [InsertOrder (order_ids s) SELL na LOT_SIZE GOOD_FOR_DAY] else [])"
  "inserts BUY (snd (place_ask s na)) = []"
  by (simp_all add: place_ask_def inserts_def Let_def)

lemma place_bid_fields [simp]:
  "position (fst (place_bid s nb)) = position s"
  "ask_id (fst (place_bid s nb)) = ask_id s"
  "asks (fst (place_bid s nb)) = asks s"
  by (simp_all add: place_bid_def Let_def)

lemma place_ask_fields [simp]:
  "position (fst (place_ask s na)) = position s"
  "bid_id (fst (place_ask s na)) = bid_id s"
  "bids (fst (place_ask s na)) = bids s"
  by (simp_all add: place_ask_def Let_def)

lemma place_bid_slot:
  "bid_id (fst (place_bid s nb)) =
     (if bid_id s = 0 \<and> nb \<noteq> 0 \<and> position s + LOT_SIZE < POSITION_LIMIT then order_ids s
      else if nb = 0 then 0 else bid_id s)"
  by (simp add: place_bid_def Let_def)

lemma place_ask_slot:
  "ask_id (fst (place_ask s na)) =
     (if ask_id s = 0 \<and> na \<noteq> 0 \<and> position s - LOT_SIZE > - POSITION_LIMIT then order_ids s
      else if na = 0 then 0 else ask_id s)"
  by (simp add: place_ask_def Let_def)

lemma place_ask_new_id:
  "ask_id s = 0 \<and> na \<noteq> 0 \<and> position s - LOT_SIZE > - POSITION_LIMIT \<Longrightarrow>
     ask_id (fst (place_ask s na)) = order_ids s"
  by (simp add: place_ask_def Let_def)

lemma place_bid_counter:
  "order_ids (fst (place_bid s nb)) =
     (if bid_id s = 0 \<and> nb \<noteq> 0 \<and> position s + LOT_SIZE < POSITION_LIMIT
      then order_ids s + 1 else order_ids s)"
  by (simp add: place_bid_def Let_def)

lemma place_ask_counter:
  "order_ids (fst (place_ask s na)) =
     (if ask_id s = 0 \<and> na \<noteq> 0 \<and> position s - LOT_SIZE > - POSITION_LIMIT
      then order_ids s + 1 else order_ids s)"
  by (simp add: place_ask_def Let_def)

lemma place_bid_keeps: "bids s \<subseteq> bids (fst (place_bid s nb))"
  by (auto simp: place_bid_def Let_def)

lemma place_ask_keeps: "asks s \<subseteq> asks (fst (place_ask s na))"
  by (auto simp: place_ask_def Let_def)

lemma requote_inserts:
  "inserts BUY (snd (requote s nb na)) =
     (if bid_id (fst (cancel_stale s nb na)) = 0 \<and> nb \<noteq> 0 \<and>
         position s + LOT_SIZE < POSITION_LIMIT
      then [InsertOrder (order_ids s) BUY nb LOT_SIZE GOOD_FOR_DAY] else [])"
  "inserts SELL (snd (requote s nb na)) =
     (if ask_id (fst (cancel_stale s nb na)) = 0 \<and> na \<noteq> 0 \<and>
         position s - LOT_SIZE > - POSITION_LIMIT
      then [InsertOrder (order_ids (fst (place_bid (fst (cancel_stale s nb na)) nb)))
              SELL na LOT_SIZE GOOD_FOR_DAY] else [])"
  by (simp_all add: requote_split place_bid_inserts place_ask_inserts)

lemma requote_keeps:
  "bids s \<subseteq> bids (fst (requote s nb na))" "asks s \<subseteq> asks (fst (requote s nb na))"
  using place_bid_keeps [of "fst (cancel_stale s nb na)" nb]
        place_ask_keeps [of "fst (place_bid (fst (cancel_stale s nb na)) nb)" na]
  by (simp_all add: requote_split)

lemma requote_slots:
  "bid_id (fst (requote s nb na)) = bid_id (fst (place_bid (fst (cancel_stale s nb na)) nb))"
  "ask_id (fst (requote s nb na)) =
     (if ask_id (fst (cancel_stale s nb na)) = 0 \<and> na \<noteq> 0 \<and>
         position s - LOT_SIZE > - POSITION_LIMIT
      then order_ids (fst (requote s nb na)) - 1
      else if na = 0 then 0 else ask_id (fst (cancel_stale s nb na)))"
  by (simp_all add: requote_split place_ask_slot place_ask_counter)

lemma requote_position: "position (fst (requote s nb na)) = position s"
  by (simp add: requote_split)

lemma requote_new_bid:
  assumes "bid_id (fst (requote s nb na)) \<noteq> 0" and "bid_id (fst (requote s nb na)) \<noteq> bid_id s"
  shows "position s + LOT_SIZE < POSITION_LIMIT"
  using assms unfolding requote_slots place_bid_slot
  by (simp split: if_splits)

lemma requote_new_ask:
  assumes "ask_id (fst (requote s nb na)) \<noteq> 0" and "ask_id (fst (requote s nb na)) \<noteq> ask_id s"
  shows "position s - LOT_SIZE > - POSITION_LIMIT"
  using assms unfolding requote_split fst_conv place_ask_slot
  by (simp split: if_splits)

lemma requote_inserts_bound:
  "inserts BUY (snd (requote s nb na)) \<noteq> [] \<Longrightarrow> position s + LOT_SIZE < POSITION_LIMIT"
  "inserts SELL (snd (requote s nb na)) \<noteq> [] \<Longrightarrow> position s - LOT_SIZE > - POSITION_LIMIT"
  unfolding requote_inserts by (simp_all split: if_splits)

subsection \<open>Order status\<close>

lemma status_fields:
  "bid_id (on_order_status_message s c f 0 fe) = (if c = bid_id s then 0 else bid_id s)"
  "ask_id (on_order_status_message s c f 0 fe) =
     (if c \<noteq> bid_id s \<and> c = ask_id s then 0 else ask_id s)"
  "bids (on_order_status_message s c f 0 fe) = bids s - {c}"
  "asks (on_order_status_message s c f 0 fe) = asks s - {c}"
  "order_ids (on_order_status_message s c f r fe) = order_ids s"
  "bid_price (on_order_status_message s c f r fe) = bid_price s"
  "ask_price (on_order_status_message s c f r fe) = ask_price s"
  "position (on_order_status_message s c f r fe) = position s"
  by (simp_all add: on_order_status_message_def Let_def)

lemma status_ignores_volume_and_fees:
  "on_order_status_message s c f r fe = on_order_status_message s c f' r fe'"
  by (simp add: on_order_status_message_def)

lemma status_cleared_noop:
  assumes "cleared s c"
  shows "on_order_status_message s c f 0 fe = s"
proof -
  have "bids s - {c} = bids s" and "asks s - {c} = asks s"
    using assms by (auto simp: cleared_def)
  moreover have "bid_id s = c \<Longrightarrow> bid_id s = 0" and "ask_id s = c \<Longrightarrow> ask_id s = 0"
    using assms by (auto simp: cleared_def)
  ultimately show ?thesis
    by (intro trader.equality) (auto simp: status_fields)
qed

subsection \<open>The invariant of the bookkeeping\<close>

lemma cancel_bid_ids_ok: "ids_ok s \<Longrightarrow> ids_ok (fst (cancel_bid s nb))"
  by (simp add: ids_ok_def cancel_bid_def)

lemma cancel_ask_ids_ok: "ids_ok s \<Longrightarrow> ids_ok (fst (cancel_ask s na))"
  by (simp add: ids_ok_def cancel_ask_def)

lemma place_bid_ids_ok:
  assumes "ids_ok s"
  shows "ids_ok (fst (place_bid s nb))"
proof (cases "bid_id s = 0 \<and> nb \<noteq> 0 \<and> position s + LOT_SIZE < POSITION_LIMIT")
  case True
  then have "fst (place_bid s nb) =
      s\<lparr>order_ids := order_ids s + 1, bid_id := order_ids s, bid_price := nb,
        bids := insert (order_ids s) (bids s)\<rparr>"
    by (simp add: place_bid_def Let_def)
  moreover have "order_ids s \<notin> asks s" and "order_ids s \<noteq> 0"
    using assms by (auto simp: ids_ok_def)
  ultimately show ?thesis
    using assms by (fastforce simp: ids_ok_def)
next
  case False
  then show ?thesis
    using assms by (auto simp: ids_ok_def place_bid_def)
qed

lemma place_ask_ids_ok:
  assumes "ids_ok s"
  shows "ids_ok (fst (place_ask s na))"
proof (cases "ask_id s = 0 \<and> na \<noteq> 0 \<and> position s - LOT_SIZE > - POSITION_LIMIT")
  case True
  then have "fst (place_ask s na) =
      s\<lparr>order_ids := order_ids s + 1, ask_id := order_ids s, ask_price := na,
        asks := insert (order_ids s) (asks s)\<rparr>"
    by (simp add: place_ask_def Let_def)
  moreover have "order_ids s \<notin> bids s" and "order_ids s \<noteq> 0"
    using assms by (auto simp: ids_ok_def)
  ultimately show ?thesis
    using assms by (fastforce simp: ids_ok_def)
next
  case False
  then show ?thesis
    using assms by (auto simp: ids_ok_def place_ask_def)
qed

lemma requote_ids_ok:
  assumes "ids_ok s" and "requote s nb na = (s', cmds)"
  shows "ids_ok s'"
proof -
  have "ids_ok (fst (requote s nb na))"
    unfolding requote_state
    by (intro place_ask_ids_ok place_bid_ids_ok cancel_ask_ids_ok cancel_bid_ids_ok assms(1))
  with assms(2) show ?thesis by simp
qed

lemma status_ids_ok:
  assumes "ids_ok s"
  shows "ids_ok (on_order_status_message s c f r fe)"
  using assms
  by (auto simp: ids_ok_def on_order_status_message_def Let_def)

lemma filled_ids_ok:
  assumes "ids_ok s"
  shows "ids_ok (on_order_filled_message s c p v)"
  using assms
  by (auto simp: ids_ok_def on_order_filled_message_def)

lemma handle_ids_ok:
  assumes "ids_ok s" and "handle fut dec s e = Inr (s', cmds)"
  shows "ids_ok s'"
proof (cases e)
  case (OrderBookUpdate i n ap av bp bv)
  with assms show ?thesis
    by (auto simp: handle_def on_order_book_update_message_def item0_def
          split: if_splits list.splits prod.splits dest: requote_ids_ok)
next
  case (Error c m)
  with assms show ?thesis
    by (auto simp: handle_def on_error_message_def status_ids_ok
          split: sum.splits if_splits)
qed (use assms in \<open>auto simp: handle_def status_ids_ok filled_ids_ok
       on_hedge_filled_message_def on_trade_ticks_message_def\<close>)

lemma reachable_ids_ok: "reachable fut dec s \<Longrightarrow> ids_ok s"
proof (induction rule: reachable.induct)
  case start
  show ?case by (simp add: ids_ok_def AutoTrader_init_def)
next
  case (step s e s' cmds)
  then show ?case by (blast intro: handle_ids_ok)
qed

lemma run_reachable:
  "reachable fut dec s \<Longrightarrow> run fut dec s es = Inr s' \<Longrightarrow> reachable fut dec s'"
proof (induction es arbitrary: s)
  case Nil
  then show ?case by simp
next
  case (Cons e es)
  then show ?case
    by (auto split: sum.splits prod.splits intro: reachable.step)
qed

lemma status_clears:
  assumes "ids_ok s"
  shows "cleared (on_order_status_message s c f 0 fe) c"
  using assms unfolding cleared_def status_fields
  by (auto simp: ids_ok_def)

lemma tracked_below_counter:
  "ids_ok s \<Longrightarrow> c \<in> bids s \<or> c \<in> asks s \<Longrightarrow> c < order_ids s"
  by (auto simp: ids_ok_def)

subsection \<open>Issued ids stay out of the sets once removed\<close>

lemma cancel_bid_spent: "spent s c \<Longrightarrow> spent (fst (cancel_bid s nb)) c"
  by (simp add: spent_def cancel_bid_def)

lemma cancel_ask_spent: "spent s c \<Longrightarrow> spent (fst (cancel_ask s na)) c"
  by (simp add: spent_def cancel_ask_def)

lemma place_bid_spent: "spent s c \<Longrightarrow> spent (fst (place_bid s nb)) c"
  by (auto simp: spent_def place_bid_def Let_def)

lemma place_ask_spent: "spent s c \<Longrightarrow> spent (fst (place_ask s na)) c"
  by (auto simp: spent_def place_ask_def Let_def)

lemma requote_spent:
  assumes "spent s c"
  shows "spent (fst (requote s nb na)) c"
  unfolding requote_state
  by (intro place_ask_spent place_bid_spent cancel_ask_spent cancel_bid_spent assms)

lemma status_spent: "spent s c \<Longrightarrow> spent (on_order_status_message s d f r fe) c"
  by (simp add: spent_def on_order_status_message_def Let_def)

lemma filled_spent: "spent s c \<Longrightarrow> spent (on_order_filled_message s d p v) c"
  by (simp add: spent_def on_order_filled_message_def)

lemma handle_spent:
  assumes "spent s c" and "handle fut dec s e = Inr (s', cmds)"
  shows "spent s' c"
proof (cases e)
  case (OrderBookUpdate i n ap av bp bv)
  show ?thesis
  proof (cases "i = fut")
    case True
    with assms(2) OrderBookUpdate obtain nb na where "requote s nb na = (s', cmds)"
      by (auto simp: handle_def on_order_book_update_message_def item0_def
            split: list.splits prod.splits)
    then have "s' = fst (requote s nb na)"
      by simp
    then show ?thesis
      using requote_spent [OF assms(1)] by simp
  next
    case False
    with assms OrderBookUpdate show ?thesis
      by (simp add: handle_def on_order_book_update_message_def)
  qed
next
  case (Error d m)
  with assms show ?thesis
    by (auto simp: handle_def on_error_message_def status_spent split: sum.splits if_splits)
qed (use assms in \<open>auto simp: handle_def status_spent filled_spent
       on_hedge_filled_message_def on_trade_ticks_message_def\<close>)

lemma run_spent:
  "spent s c \<Longrightarrow> run fut dec s es = Inr s' \<Longrightarrow> spent s' c"
proof (induction es arbitrary: s)
  case Nil
  then show ?case by simp
next
  case (Cons e es)
  then show ?case
    by (auto split: sum.splits prod.splits dest: handle_spent)
qed

lemma terminal_status_spent:
  "c < order_ids s \<Longrightarrow> spent (on_order_status_message s c f 0 fe) c"
  by (simp add: spent_def on_order_status_message_def Let_def)

subsection \<open>Evaluated runs\<close>

lemma scenario_A:
  "handle 0 decode_ascii AutoTrader_init (OrderBookUpdate 0 1 [10100] [5] [9900] [5]) =
     Inr (quoted_state,
          [InsertOrder 1 BUY 9900 10 GOOD_FOR_DAY, InsertOrder 2 SELL 10100 10 GOOD_FOR_DAY])"
  by (simp add: handle_def book_defs AutoTrader_init_def quoted_state_def)

lemma first_update:
  "on_order_book_update_message 0 AutoTrader_init 0 1 [10100] [5] [9900] [5] =
     Inr (quoted_state,
          [InsertOrder 1 BUY 9900 10 GOOD_FOR_DAY, InsertOrder 2 SELL 10100 10 GOOD_FOR_DAY])"
  using scenario_A by (simp add: handle_def)

lemma quoted_state_reachable: "reachable 0 decode_ascii quoted_state"
  using reachable.step [OF reachable.start scenario_A] .

lemma long_update:
  "on_order_book_update_message 0 long_state 0 2 [10050] [5] [9950] [5] =
     Inr (requoted_state,
          [CancelOrder 1, CancelOrder 2,
           InsertOrder 3 BUY 9990 10 GOOD_FOR_DAY, InsertOrder 4 SELL 10000 10 GOOD_FOR_DAY])"
  by (simp add: book_defs Let_def long_state_def quoted_state_def requoted_state_def)

lemma limit_update:
  "on_order_book_update_message 0 limit_state 0 7 [10050] [1] [9950] [1] =
     Inr (limit_state\<lparr>order_ids := 4, ask_id := 3, ask_price := 10000, asks := {3, 2}\<rparr>,
          [CancelOrder 2, InsertOrder 3 SELL 10000 10 GOOD_FOR_DAY])"
  by (simp add: book_defs Let_def limit_state_def)

lemma decode_ascii_text:
  "decode_ascii [111, 114, 100, 101, 114] = Inr ''order''"
  by code_simp

lemma buying_run_result: "run 0 decode_ascii AutoTrader_init buying_run = Inr full_state"
  by (simp add: buying_run_def bought_def book_def handle_def book_defs Let_def
        on_order_filled_message_def on_order_status_message_def AutoTrader_init_def
        full_state_def)

lemma status_then_book:
  "handle 0 decode_ascii quoted_state (OrderStatus 1 10 0 0) =
     Inr (quoted_state\<lparr>bid_id := 0, bids := {}\<rparr>, [])"
  "run 0 decode_ascii (quoted_state\<lparr>bid_id := 0, bids := {}\<rparr>)
     [OrderBookUpdate 0 2 [10100] [5] [9900] [5]] = Inr rebid_state"
  by (simp_all add: handle_def on_order_status_message_def book_defs Let_def quoted_state_def
        rebid_state_def)

lemma error_then_tick:
  "handle 0 decode_ascii quoted_state (Error 2 [111, 114, 100, 101, 114]) =
     Inr (quoted_state\<lparr>ask_id := 0, asks := {}\<rparr>, [])"
  "run 0 decode_ascii (quoted_state\<lparr>ask_id := 0, asks := {}\<rparr>)
     [TradeTicks 0 3 [10100] [5] [9900] [5]] = Inr (quoted_state\<lparr>ask_id := 0, asks := {}\<rparr>)"
  by (simp_all add: handle_def on_error_message_def decode_ascii_text on_order_status_message_def
        on_trade_ticks_message_def Let_def quoted_state_def)

section \<open>Claims\<close>

text \<open>
  C1. On an order-book update for the tracked instrument, with \<open>mid\<close> the floor of
  (best bid + best ask) / 2: a positive position quotes the bid at \<open>mid - 10\<close> and the ask
  at \<open>mid\<close>; a negative position quotes the bid at \<open>mid\<close> and the ask at \<open>mid + 10\<close>; a
  zero position quotes the top of the book. The quotes are the two prices that the rest of
  the callback (\<open>requote\<close>) works with.
\<close>

theorem quotes_by_position:
  "(0 < position s \<longrightarrow>
      on_order_book_update_message fut s fut n (a # as) av (b # bs) bv =
        Inr (requote s ((b + a) div 2 - 10) ((b + a) div 2))) \<and>
   (position s < 0 \<longrightarrow>
      on_order_book_update_message fut s fut n (a # as) av (b # bs) bv =
        Inr (requote s ((b + a) div 2) ((b + a) div 2 + 10))) \<and>
   (position s = 0 \<longrightarrow>
      on_order_book_update_message fut s fut n (a # as) av (b # bs) bv =
        Inr (requote s b a))"
  by (simp add: on_order_book_update_message_def item0_def new_prices_def Let_def)

theorem quotes_by_position_witness:
  "(0 < position (quoted_state\<lparr>position := 50\<rparr>) \<and>
      on_order_book_update_message 0 (quoted_state\<lparr>position := 50\<rparr>) 0 2
          [10050, 10100] [7, 9] [9951, 9900] [3, 4] =
        Inr (requote (quoted_state\<lparr>position := 50\<rparr>) 9990 10000)) \<and>
   (position (quoted_state\<lparr>position := - 50\<rparr>) < 0 \<and>
      on_order_book_update_message 0 (quoted_state\<lparr>position := - 50\<rparr>) 0 2
          [10050, 10100] [7, 9] [9951, 9900] [3, 4] =
        Inr (requote (quoted_state\<lparr>position := - 50\<rparr>) 10000 10010)) \<and>
   (position quoted_state = 0 \<and>
      on_order_book_update_message 0 quoted_state 0 2
          [10050, 10100] [7, 9] [9951, 9900] [3, 4] =
        Inr (requote quoted_state 9951 10050))"
  using quotes_by_position [of "quoted_state\<lparr>position := 50\<rparr>" 0 2 10050 "[10100]" "[7, 9]" 9951 "[9900]" "[3, 4]"]
        quotes_by_position [of "quoted_state\<lparr>position := - 50\<rparr>" 0 2 10050 "[10100]" "[7, 9]" 9951 "[9900]" "[3, 4]"]
        quotes_by_position [of quoted_state 0 2 10050 "[10100]" "[7, 9]" 9951 "[9900]" "[3, 4]"]
  by (simp add: quoted_state_def)

text \<open>
  C2, as stated: no callback raises, the order-book callback not even on empty lists. It
  does: on the tracked instrument, \<^verbatim>\<open>bid_prices[0]\<close> of an empty list raises
  \<^verbatim>\<open>IndexError\<close>.
\<close>

theorem empty_book_raises:
  "on_order_book_update_message 0 AutoTrader_init 0 1 [] [] [] [] = Inl IndexError"
  by (simp add: on_order_book_update_message_def item0_def)

text \<open>
  C2, amended. The order-filled, order-status, hedge-filled and trade-ticks callbacks return
  on every input. The order-book callback returns on every instrument other than the tracked
  one and, on the tracked one, whenever \<open>ask_prices\<close> and \<open>bid_prices\<close> are both non-empty;
  when one of them is empty it raises \<^verbatim>\<open>IndexError\<close>. The error callback returns on every
  order id whenever the message decodes.
\<close>

theorem callbacks_return:
  "(i \<noteq> fut \<or> (ap \<noteq> [] \<and> bp \<noteq> []) \<longrightarrow>
      (\<exists>s' cmds. handle fut dec s (OrderBookUpdate i n ap av bp bv) = Inr (s', cmds))) \<and>
   (i = fut \<and> (ap = [] \<or> bp = []) \<longrightarrow>
      handle fut dec s (OrderBookUpdate i n ap av bp bv) = Inl IndexError) \<and>
   (dec m = Inr txt \<longrightarrow> (\<exists>s'. handle fut dec s (Error c m) = Inr (s', []))) \<and>
   (\<exists>s'. handle fut dec s (OrderFilled c p v) = Inr (s', [])) \<and>
   (\<exists>s'. handle fut dec s (OrderStatus c f r fe) = Inr (s', [])) \<and>
   (\<exists>s'. handle fut dec s (HedgeFilled c p v) = Inr (s', [])) \<and>
   (\<exists>s'. handle fut dec s (TradeTicks i n ap av bp bv) = Inr (s', []))"
  by (auto simp: handle_def on_order_book_update_message_def item0_def on_error_message_def
        split: list.splits prod.splits)

theorem callbacks_return_witness:
  "((1::int) \<noteq> 0 \<and>
      handle 0 decode_ascii quoted_state (OrderBookUpdate 1 4 [] [] [] []) = Inr (quoted_state, [])) \<and>
   ([10100] \<noteq> ([]::int list) \<and> [9900] \<noteq> ([]::int list) \<and>
      handle 0 decode_ascii AutoTrader_init (OrderBookUpdate 0 1 [10100] [5] [9900] [5]) =
        Inr (quoted_state,
          [InsertOrder 1 BUY 9900 10 GOOD_FOR_DAY, InsertOrder 2 SELL 10100 10 GOOD_FOR_DAY])) \<and>
   handle 0 decode_ascii quoted_state (OrderBookUpdate 0 4 [10100] [5] [] []) = Inl IndexError \<and>
   (decode_ascii [111, 114, 100, 101, 114] = Inr ''order'' \<and>
      handle 0 decode_ascii quoted_state (Error 999 [111, 114, 100, 101, 114]) =
        Inr (quoted_state, []))"
  using callbacks_return [of 1 0 "[]" "[]" decode_ascii quoted_state 4 "[]" "[]"
          "[111, 114, 100, 101, 114]" "''order''" 999 0 0 0 0 0]
    callbacks_return [of 0 0 "[10100]" "[]" decode_ascii quoted_state 4 "[5]" "[]"
          "[111, 114, 100, 101, 114]" "''order''" 999 0 0 0 0 0]
    scenario_A decode_ascii_text
  by (simp add: handle_def on_order_book_update_message_def on_error_message_def quoted_state_def)

text \<open>
  C3, as stated: no reachable state has an outstanding bid while
  \<open>position + LOT_SIZE \<ge> POSITION_LIMIT\<close>. The run \<open>buying_run\<close> reaches one: the bid
  inserted at position 80 is filled, and until its terminal status arrives \<open>bid_id\<close> is
  still 11 at position 90.
\<close>

theorem resting_bid_at_limit:
  "run 0 decode_ascii AutoTrader_init buying_run = Inr full_state \<and>
   reachable 0 decode_ascii full_state \<and>
   bid_id full_state \<noteq> 0 \<and> position full_state + LOT_SIZE \<ge> POSITION_LIMIT"
  using buying_run_result run_reachable [OF reachable.start buying_run_result]
  by (simp add: full_state_def LOT_SIZE_def POSITION_LIMIT_def)

text \<open>
  C3, amended. An order enters a slot only within the limit: whenever a callback sends a buy
  insert, or leaves in \<open>bid_id\<close> a nonzero id that was not there before, the resulting state
  has \<open>position + LOT_SIZE < POSITION_LIMIT\<close>; whenever it sends a sell insert, or leaves in
  \<open>ask_id\<close> a nonzero id that was not there before, the resulting state has
  \<open>position - LOT_SIZE > - POSITION_LIMIT\<close>. (Nothing is said of the time after that: fills
  move the position while the order stays in its slot.)
\<close>

theorem orders_enter_within_limit:
  assumes "handle fut dec s e = Inr (s', cmds)"
  shows "(bid_id s' \<noteq> 0 \<and> bid_id s' \<noteq> bid_id s \<longrightarrow> position s' + LOT_SIZE < POSITION_LIMIT) \<and>
         (ask_id s' \<noteq> 0 \<and> ask_id s' \<noteq> ask_id s \<longrightarrow> position s' - LOT_SIZE > - POSITION_LIMIT) \<and>
         (inserts BUY cmds \<noteq> [] \<longrightarrow> position s' + LOT_SIZE < POSITION_LIMIT) \<and>
         (inserts SELL cmds \<noteq> [] \<longrightarrow> position s' - LOT_SIZE > - POSITION_LIMIT)"
proof (cases e)
  case (OrderBookUpdate i n ap av bp bv)
  show ?thesis
  proof (cases "i = fut")
    case True
    with assms OrderBookUpdate obtain nb na where r: "requote s nb na = (s', cmds)"
      by (auto simp: handle_def on_order_book_update_message_def item0_def
            split: list.splits prod.splits)
    then have "s' = fst (requote s nb na)" "cmds = snd (requote s nb na)"
      by simp_all
    then show ?thesis
      using requote_new_bid [of s nb na] requote_new_ask [of s nb na]
        requote_inserts_bound [of s nb na] requote_position [of s nb na]
      by simp
  next
    case False
    with assms OrderBookUpdate show ?thesis
      by (simp add: handle_def on_order_book_update_message_def inserts_def)
  qed
next
  case (OrderStatus c f r fe)
  with assms show ?thesis
    by (auto simp: handle_def on_order_status_message_def inserts_def Let_def split: if_splits)
next
  case (Error c m)
  with assms show ?thesis
    by (auto simp: handle_def on_error_message_def on_order_status_message_def inserts_def
          Let_def split: if_splits sum.splits)
qed (use assms in \<open>auto simp: handle_def on_order_filled_message_def inserts_def
       on_hedge_filled_message_def on_trade_ticks_message_def\<close>)

theorem orders_enter_within_limit_witness:
  "handle 0 decode_ascii AutoTrader_init (OrderBookUpdate 0 1 [10100] [5] [9900] [5]) =
     Inr (quoted_state,
          [InsertOrder 1 BUY 9900 10 GOOD_FOR_DAY, InsertOrder 2 SELL 10100 10 GOOD_FOR_DAY]) \<and>
   (bid_id quoted_state \<noteq> 0 \<and> bid_id quoted_state \<noteq> bid_id AutoTrader_init) \<and>
   (ask_id quoted_state \<noteq> 0 \<and> ask_id quoted_state \<noteq> ask_id AutoTrader_init) \<and>
   inserts BUY [InsertOrder 1 BUY 9900 10 GOOD_FOR_DAY, InsertOrder 2 SELL 10100 10 GOOD_FOR_DAY]
     \<noteq> [] \<and>
   inserts SELL [InsertOrder 1 BUY 9900 10 GOOD_FOR_DAY, InsertOrder 2 SELL 10100 10 GOOD_FOR_DAY]
     \<noteq> [] \<and>
   position quoted_state + LOT_SIZE < POSITION_LIMIT \<and>
   position quoted_state - LOT_SIZE > - POSITION_LIMIT"
  using orders_enter_within_limit [OF scenario_A] scenario_A
  by (simp add: quoted_state_def AutoTrader_init_def inserts_def)

text \<open>
  C4. On an order-book update for the tracked instrument, a buy insert is sent exactly when,
  after the cancellation step, \<open>bid_id\<close> is 0, the new bid price is nonzero and
  \<open>position + LOT_SIZE < POSITION_LIMIT\<close>; a sell insert is sent exactly when, after the
  cancellation step, \<open>ask_id\<close> is 0, the new ask price is nonzero and
  \<open>position - LOT_SIZE > - POSITION_LIMIT\<close>. Each side sends at most one insert, of
  \<open>LOT_SIZE\<close> lots at the new price, good for the day. At position
  \<open>POSITION_LIMIT - LOT_SIZE\<close> no buy insert is sent.
\<close>

theorem insert_conditions:
  assumes "on_order_book_update_message fut s fut n (a # as) av (b # bs) bv = Inr (s', cmds)"
    and "new_prices (position s) b a = (nb, na)"
    and "cancel_stale s nb na = (s1, c1)"
  shows "(inserts BUY cmds \<noteq> [] \<longleftrightarrow>
            bid_id s1 = 0 \<and> nb \<noteq> 0 \<and> position s + LOT_SIZE < POSITION_LIMIT) \<and>
         (inserts SELL cmds \<noteq> [] \<longleftrightarrow>
            ask_id s1 = 0 \<and> na \<noteq> 0 \<and> position s - LOT_SIZE > - POSITION_LIMIT) \<and>
         (inserts BUY cmds \<noteq> [] \<longrightarrow>
            inserts BUY cmds = [InsertOrder (order_ids s) BUY nb LOT_SIZE GOOD_FOR_DAY]) \<and>
         (inserts SELL cmds \<noteq> [] \<longrightarrow>
            inserts SELL cmds = [InsertOrder (ask_id s') SELL na LOT_SIZE GOOD_FOR_DAY]) \<and>
         (position s = POSITION_LIMIT - LOT_SIZE \<longrightarrow> inserts BUY cmds = [])"
proof -
  have r: "requote s nb na = (s', cmds)"
    using assms(1,2) by (simp add: book_update_requote)
  have s1: "s1 = fst (cancel_stale s nb na)"
    using assms(3) by simp
  have cmds: "cmds = snd (requote s nb na)" and s': "s' = fst (requote s nb na)"
    using r by simp_all
  have pos: "position s1 = position s"
    unfolding s1 by simp
  have ask: "ask_id s1 = 0 \<and> na \<noteq> 0 \<and> position s - LOT_SIZE > - POSITION_LIMIT \<Longrightarrow>
      ask_id s' = order_ids (fst (place_bid s1 nb))"
    unfolding s' requote_split fst_conv s1 [symmetric]
    using place_ask_new_id [of "fst (place_bid s1 nb)" na] pos by simp
  have buy: "inserts BUY cmds =
      (if bid_id s1 = 0 \<and> nb \<noteq> 0 \<and> position s + LOT_SIZE < POSITION_LIMIT
       then [InsertOrder (order_ids s) BUY nb LOT_SIZE GOOD_FOR_DAY] else [])"
    unfolding cmds s1 by (rule requote_inserts)
  have sell: "inserts SELL cmds =
      (if ask_id s1 = 0 \<and> na \<noteq> 0 \<and> position s - LOT_SIZE > - POSITION_LIMIT
       then [InsertOrder (order_ids (fst (place_bid s1 nb))) SELL na LOT_SIZE GOOD_FOR_DAY]
       else [])"
    unfolding cmds s1 by (rule requote_inserts)
  show ?thesis
    using ask unfolding buy sell by (simp add: LOT_SIZE_def POSITION_LIMIT_def)
qed

theorem insert_conditions_witness:
  "position limit_state = POSITION_LIMIT - LOT_SIZE \<and>
   on_order_book_update_message 0 limit_state 0 7 [10050] [1] [9950] [1] =
     Inr (limit_state\<lparr>order_ids := 4, ask_id := 3, ask_price := 10000, asks := {3, 2}\<rparr>,
          [CancelOrder 2, InsertOrder 3 SELL 10000 10 GOOD_FOR_DAY]) \<and>
   new_prices (position limit_state) 9950 10050 = (9990, 10000) \<and>
   cancel_stale limit_state 9990 10000 = (limit_state\<lparr>ask_id := 0\<rparr>, [CancelOrder 2]) \<and>
   inserts BUY [CancelOrder 2, InsertOrder 3 SELL 10000 10 GOOD_FOR_DAY] = [] \<and>
   inserts SELL [CancelOrder 2, InsertOrder 3 SELL 10000 10 GOOD_FOR_DAY] =
     [InsertOrder 3 SELL 10000 LOT_SIZE GOOD_FOR_DAY] \<and>
   on_order_book_update_message 0 AutoTrader_init 0 1 [10100] [5] [9900] [5] =
     Inr (quoted_state,
          [InsertOrder 1 BUY 9900 10 GOOD_FOR_DAY, InsertOrder 2 SELL 10100 10 GOOD_FOR_DAY]) \<and>
   new_prices (position AutoTrader_init) 9900 10100 = (9900, 10100) \<and>
   cancel_stale AutoTrader_init 9900 10100 = (AutoTrader_init, []) \<and>
   inserts BUY [InsertOrder 1 BUY 9900 10 GOOD_FOR_DAY, InsertOrder 2 SELL 10100 10 GOOD_FOR_DAY] =
     [InsertOrder (order_ids AutoTrader_init) BUY 9900 LOT_SIZE GOOD_FOR_DAY] \<and>
   inserts SELL [InsertOrder 1 BUY 9900 10 GOOD_FOR_DAY, InsertOrder 2 SELL 10100 10 GOOD_FOR_DAY] =
     [InsertOrder (ask_id quoted_state) SELL 10100 LOT_SIZE GOOD_FOR_DAY]"
proof -
  have p1: "new_prices (position limit_state) 9950 10050 = (9990, 10000)"
    by (simp add: new_prices_def limit_state_def)
  have c1: "cancel_stale limit_state 9990 10000 = (limit_state\<lparr>ask_id := 0\<rparr>, [CancelOrder 2])"
    by (simp add: cancel_stale_def cancel_bid_def cancel_ask_def limit_state_def)
  have p2: "new_prices (position AutoTrader_init) 9900 10100 = (9900, 10100)"
    by (simp add: new_prices_def AutoTrader_init_def)
  have c2: "cancel_stale AutoTrader_init 9900 10100 = (AutoTrader_init, [])"
    by (simp add: cancel_stale_def cancel_bid_def cancel_ask_def AutoTrader_init_def)
  have l: "position limit_state = POSITION_LIMIT - LOT_SIZE"
    by (simp add: limit_state_def LOT_SIZE_def POSITION_LIMIT_def)
  show ?thesis
    using insert_conditions [OF limit_update p1 c1] insert_conditions [OF first_update p2 c2]
      limit_update first_update p1 c1 p2 c2 l
    by (simp add: inserts_def)
qed

text \<open>
  C5. An order-filled notification for an id in the outstanding buys adds the volume to
  the position; otherwise, for an id in the outstanding sells, it subtracts the volume;
  for an id in neither set the whole state is unchanged. Nothing but the position changes
  in any case.
\<close>

theorem fill_attribution:
  "(c \<in> bids s \<longrightarrow>
      on_order_filled_message s c p v = s\<lparr>position := position s + v\<rparr>) \<and>
   (c \<notin> bids s \<and> c \<in> asks s \<longrightarrow>
      on_order_filled_message s c p v = s\<lparr>position := position s - v\<rparr>) \<and>
   (c \<notin> bids s \<and> c \<notin> asks s \<longrightarrow> on_order_filled_message s c p v = s)"
  by (simp add: on_order_filled_message_def)

theorem fill_attribution_witness:
  "(1 \<in> bids quoted_state \<and>
      on_order_filled_message quoted_state 1 9900 10 = quoted_state\<lparr>position := 10\<rparr>) \<and>
   (2 \<notin> bids quoted_state \<and> 2 \<in> asks quoted_state \<and>
      on_order_filled_message quoted_state 2 10100 10 = quoted_state\<lparr>position := - 10\<rparr>) \<and>
   (999 \<notin> bids quoted_state \<and> 999 \<notin> asks quoted_state \<and>
      on_order_filled_message quoted_state 999 10000 10 = quoted_state)"
  using fill_attribution [of 1 quoted_state 9900 10]
        fill_attribution [of 2 quoted_state 10100 10]
        fill_attribution [of 999 quoted_state 10000 10]
  by (simp add: quoted_state_def)

text \<open>
  C6. On an order-book update for the tracked instrument, if a bid rests (\<open>bid_id \<noteq> 0\<close>)
  and the new bid price is neither the recorded \<open>bid_price\<close> nor 0, then a cancel of
  \<open>bid_id\<close> is sent, first of all requests, and the cancellation step leaves \<open>bid_id = 0\<close>;
  the insert decision of that side is taken on the emptied slot, so it depends on the
  position only; and the cancelled id stays in the outstanding buys. The same holds of the
  ask side, whose cancel is preceded by no insert.
\<close>

theorem stale_quotes_cancelled_first:
  assumes "on_order_book_update_message fut s fut n (a # as) av (b # bs) bv = Inr (s', cmds)"
    and "new_prices (position s) b a = (nb, na)"
  shows "(bid_id s \<noteq> 0 \<and> nb \<noteq> bid_price s \<and> nb \<noteq> 0 \<longrightarrow>
            (\<exists>rest. cmds = CancelOrder (bid_id s) # rest) \<and>
            bid_id (fst (cancel_stale s nb na)) = 0 \<and>
            (inserts BUY cmds \<noteq> [] \<longleftrightarrow> position s + LOT_SIZE < POSITION_LIMIT) \<and>
            bid_id s' = (if position s + LOT_SIZE < POSITION_LIMIT then order_ids s else 0) \<and>
            bids s \<subseteq> bids s') \<and>
         (ask_id s \<noteq> 0 \<and> na \<noteq> ask_price s \<and> na \<noteq> 0 \<longrightarrow>
            (\<exists>pre rest. cmds = pre @ CancelOrder (ask_id s) # rest \<and>
               inserts BUY pre = [] \<and> inserts SELL pre = []) \<and>
            ask_id (fst (cancel_stale s nb na)) = 0 \<and>
            (inserts SELL cmds \<noteq> [] \<longleftrightarrow> position s - LOT_SIZE > - POSITION_LIMIT) \<and>
            ask_id s' = (if position s - LOT_SIZE > - POSITION_LIMIT then order_ids s' - 1 else 0) \<and>
            asks s \<subseteq> asks s')"
proof -
  have r: "requote s nb na = (s', cmds)"
    using assms by (simp add: book_update_requote)
  then have cmds: "cmds = snd (requote s nb na)" and s': "s' = fst (requote s nb na)"
    by simp_all
  let ?c1 = "snd (cancel_stale s nb na)" and ?s1 = "fst (cancel_stale s nb na)"
  have split: "cmds = ?c1 @ snd (place_bid ?s1 nb) @ snd (place_ask (fst (place_bid ?s1 nb)) na)"
    unfolding cmds requote_split by simp
  have pos: "position ?s1 = position s" and cnt: "order_ids ?s1 = order_ids s"
    by simp_all
  have bid: "(\<exists>rest. cmds = CancelOrder (bid_id s) # rest) \<and>
      bid_id ?s1 = 0 \<and>
      (inserts BUY cmds \<noteq> [] \<longleftrightarrow> position s + LOT_SIZE < POSITION_LIMIT) \<and>
      bid_id s' = (if position s + LOT_SIZE < POSITION_LIMIT then order_ids s else 0) \<and>
      bids s \<subseteq> bids s'"
    if b: "bid_id s \<noteq> 0 \<and> nb \<noteq> bid_price s \<and> nb \<noteq> 0"
  proof -
    have "?c1 = CancelOrder (bid_id s) #
        (if ask_id s \<noteq> 0 \<and> na \<noteq> ask_price s \<and> na \<noteq> 0 then [CancelOrder (ask_id s)] else [])"
      using b by (simp add: cancel_stale_commands)
    then have 1: "\<exists>rest. cmds = CancelOrder (bid_id s) # rest"
      unfolding split by simp
    have 2: "bid_id ?s1 = 0"
      using b by simp
    have 3: "inserts BUY cmds \<noteq> [] \<longleftrightarrow> position s + LOT_SIZE < POSITION_LIMIT"
      unfolding cmds requote_inserts using 2 b by simp
    have 4: "bid_id s' = (if position s + LOT_SIZE < POSITION_LIMIT then order_ids s else 0)"
      unfolding s' requote_slots place_bid_slot pos cnt using 2 b by simp
    have 5: "bids s \<subseteq> bids s'"
      unfolding s' by (rule requote_keeps)
    show ?thesis
      using 1 2 3 4 5 by blast
  qed
  have ask: "(\<exists>pre rest. cmds = pre @ CancelOrder (ask_id s) # rest \<and>
         inserts BUY pre = [] \<and> inserts SELL pre = []) \<and>
      ask_id ?s1 = 0 \<and>
      (inserts SELL cmds \<noteq> [] \<longleftrightarrow> position s - LOT_SIZE > - POSITION_LIMIT) \<and>
      ask_id s' = (if position s - LOT_SIZE > - POSITION_LIMIT then order_ids s' - 1 else 0) \<and>
      asks s \<subseteq> asks s'"
    if a: "ask_id s \<noteq> 0 \<and> na \<noteq> ask_price s \<and> na \<noteq> 0"
  proof -
    let ?pre = "if bid_id s \<noteq> 0 \<and> nb \<noteq> bid_price s \<and> nb \<noteq> 0
                then [CancelOrder (bid_id s)] else []"
    have "?c1 = ?pre @ [CancelOrder (ask_id s)]"
      using a by (simp add: cancel_stale_commands)
    then have "cmds = ?pre @ CancelOrder (ask_id s) #
        (snd (place_bid ?s1 nb) @ snd (place_ask (fst (place_bid ?s1 nb)) na))"
      unfolding split by simp
    moreover have "inserts BUY ?pre = []" and "inserts SELL ?pre = []"
      by (simp_all add: inserts_def)
    ultimately have 1: "\<exists>pre rest. cmds = pre @ CancelOrder (ask_id s) # rest \<and>
         inserts BUY pre = [] \<and> inserts SELL pre = []"
      by blast
    have 2: "ask_id ?s1 = 0"
      using a by simp
    have 3: "inserts SELL cmds \<noteq> [] \<longleftrightarrow> position s - LOT_SIZE > - POSITION_LIMIT"
      unfolding cmds requote_inserts using 2 a by simp
    have 4: "ask_id s' = (if position s - LOT_SIZE > - POSITION_LIMIT then order_ids s' - 1 else 0)"
      using requote_slots(2) [of s nb na] 2 a unfolding s' by simp
    have 5: "asks s \<subseteq> asks s'"
      unfolding s' by (rule requote_keeps)
    show ?thesis
      using 1 2 3 4 5 by blast
  qed
  show ?thesis
    using bid ask by blast
qed

theorem stale_quotes_cancelled_first_witness:
  "on_order_book_update_message 0 long_state 0 2 [10050] [5] [9950] [5] =
     Inr (requoted_state,
          [CancelOrder 1, CancelOrder 2,
           InsertOrder 3 BUY 9990 10 GOOD_FOR_DAY, InsertOrder 4 SELL 10000 10 GOOD_FOR_DAY]) \<and>
   new_prices (position long_state) 9950 10050 = (9990, 10000) \<and>
   (bid_id long_state \<noteq> 0 \<and> 9990 \<noteq> bid_price long_state \<and> (9990::int) \<noteq> 0) \<and>
   (ask_id long_state \<noteq> 0 \<and> 10000 \<noteq> ask_price long_state \<and> (10000::int) \<noteq> 0) \<and>
   bid_id (fst (cancel_stale long_state 9990 10000)) = 0 \<and>
   ask_id (fst (cancel_stale long_state 9990 10000)) = 0 \<and>
   bid_id requoted_state = order_ids long_state \<and>
   ask_id requoted_state = order_ids requoted_state - 1 \<and>
   bid_id long_state \<in> bids requoted_state \<and>
   ask_id long_state \<in> asks requoted_state"
proof -
  have p: "new_prices (position long_state) 9950 10050 = (9990, 10000)"
    by (simp add: new_prices_def long_state_def quoted_state_def)
  have b: "bid_id long_state \<noteq> 0 \<and> 9990 \<noteq> bid_price long_state \<and> (9990::int) \<noteq> 0"
    and a: "ask_id long_state \<noteq> 0 \<and> 10000 \<noteq> ask_price long_state \<and> (10000::int) \<noteq> 0"
    by (simp_all add: long_state_def quoted_state_def)
  have l: "position long_state + LOT_SIZE < POSITION_LIMIT"
    "position long_state - LOT_SIZE > - POSITION_LIMIT"
    by (simp_all add: long_state_def quoted_state_def LOT_SIZE_def POSITION_LIMIT_def)
  have i: "bid_id long_state \<in> bids requoted_state" "ask_id long_state \<in> asks requoted_state"
    by (simp_all add: long_state_def quoted_state_def requoted_state_def)
  show ?thesis
    using stale_quotes_cancelled_first [OF long_update p] long_update p a b l i
    by simp
qed

text \<open>
  C7. An order-status notification with remaining volume 0 sets \<open>bid_id\<close> to 0 if the id
  equals it, else \<open>ask_id\<close> to 0 if the id equals that, and removes the id from both
  outstanding sets; nothing else changes. With a nonzero remaining volume the state is
  unchanged. For an id that is already cleared a terminal status changes nothing; and in a
  reachable state one terminal status clears the id, so that repeating it changes nothing.
  (The callback has no exception: its result is a state.)
\<close>

theorem status_cleanup:
  "(bid_id (on_order_status_message s c f 0 fe) = (if c = bid_id s then 0 else bid_id s) \<and>
    ask_id (on_order_status_message s c f 0 fe) =
      (if c \<noteq> bid_id s \<and> c = ask_id s then 0 else ask_id s) \<and>
    bids (on_order_status_message s c f 0 fe) = bids s - {c} \<and>
    asks (on_order_status_message s c f 0 fe) = asks s - {c} \<and>
    order_ids (on_order_status_message s c f 0 fe) = order_ids s \<and>
    bid_price (on_order_status_message s c f 0 fe) = bid_price s \<and>
    ask_price (on_order_status_message s c f 0 fe) = ask_price s \<and>
    position (on_order_status_message s c f 0 fe) = position s) \<and>
   (r \<noteq> 0 \<longrightarrow> on_order_status_message s c f r fe = s) \<and>
   (cleared s c \<longrightarrow> on_order_status_message s c f 0 fe = s) \<and>
   (reachable fut dec s \<longrightarrow>
      cleared (on_order_status_message s c f 0 fe) c \<and>
      on_order_status_message (on_order_status_message s c f 0 fe) c f' 0 fe' =
        on_order_status_message s c f 0 fe)"
proof -
  have "r \<noteq> 0 \<longrightarrow> on_order_status_message s c f r fe = s"
    by (simp add: on_order_status_message_def)
  moreover have "cleared s c \<longrightarrow> on_order_status_message s c f 0 fe = s"
    by (simp add: status_cleared_noop)
  moreover have "reachable fut dec s \<longrightarrow>
      cleared (on_order_status_message s c f 0 fe) c \<and>
      on_order_status_message (on_order_status_message s c f 0 fe) c f' 0 fe' =
        on_order_status_message s c f 0 fe"
    using status_clears [OF reachable_ids_ok] status_cleared_noop by blast
  ultimately show ?thesis
    by (simp add: status_fields)
qed

theorem status_cleanup_witness:
  "on_order_status_message quoted_state 1 10 0 0 = quoted_state\<lparr>bid_id := 0, bids := {}\<rparr> \<and>
   on_order_status_message quoted_state 2 10 0 0 = quoted_state\<lparr>ask_id := 0, asks := {}\<rparr> \<and>
   ((5::int) \<noteq> 0 \<and> on_order_status_message quoted_state 1 5 5 0 = quoted_state) \<and>
   (cleared quoted_state 999 \<and> on_order_status_message quoted_state 999 0 0 0 = quoted_state) \<and>
   (reachable 0 decode_ascii quoted_state \<and>
      cleared (on_order_status_message quoted_state 1 10 0 0) 1 \<and>
      on_order_status_message (on_order_status_message quoted_state 1 10 0 0) 1 10 0 0 =
        on_order_status_message quoted_state 1 10 0 0)"
proof -
  have a: "on_order_status_message quoted_state 1 10 0 0 = quoted_state\<lparr>bid_id := 0, bids := {}\<rparr>"
    using status_cleanup [of quoted_state 1 10 0 5 0 decode_ascii 10 0]
    by (intro trader.equality) (simp_all add: quoted_state_def)
  have b: "on_order_status_message quoted_state 2 10 0 0 = quoted_state\<lparr>ask_id := 0, asks := {}\<rparr>"
    using status_cleanup [of quoted_state 2 10 0 5 0 decode_ascii 10 0]
    by (intro trader.equality) (simp_all add: quoted_state_def)
  have c: "cleared quoted_state 999"
    by (simp add: cleared_def quoted_state_def)
  show ?thesis
    using a b c quoted_state_reachable
      status_cleanup [of quoted_state 1 5 0 5 0 decode_ascii 10 0]
      status_cleanup [of quoted_state 999 0 0 5 0 decode_ascii 10 0]
      status_cleanup [of quoted_state 1 10 0 5 0 decode_ascii 10 0]
    by simp
qed

text \<open>
  C8, as stated: every error notification for a nonzero tracked id leaves the state that a
  terminal order-status notification leaves. Line 42 decodes the message before line 43
  looks at the id: for a message that does not decode the callback raises, and order 2,
  tracked on the ask side, is not cleaned up.
\<close>

theorem undecodable_error_skips_cleanup:
  "(2::int) \<noteq> 0 \<and> 2 \<in> asks quoted_state \<and>
   on_error_message decode_ascii quoted_state 2 [255] = Inl UnicodeDecodeError \<and>
   on_error_message decode_ascii quoted_state 2 [255] \<noteq>
     Inr (on_order_status_message quoted_state 2 0 0 0)"
  by (simp add: on_error_message_def decode_ascii_def quoted_state_def)

text \<open>
  C8, amended. For every error notification whose message decodes: for a nonzero id in
  either outstanding set the state becomes the state after a terminal order-status
  notification for that id (whatever its fill volume and fees), so the matching slot is
  cleared and the id is removed from both sets; for the id 0 or an id in neither set the
  state is unchanged.
\<close>

theorem error_terminates_tracked_order:
  assumes "dec m = Inr txt"
  shows "(c \<noteq> 0 \<and> (c \<in> bids s \<or> c \<in> asks s) \<longrightarrow>
            on_error_message dec s c m = Inr (on_order_status_message s c f 0 fe) \<and>
            bid_id (on_order_status_message s c f 0 fe) = (if c = bid_id s then 0 else bid_id s) \<and>
            ask_id (on_order_status_message s c f 0 fe) =
              (if c \<noteq> bid_id s \<and> c = ask_id s then 0 else ask_id s) \<and>
            bids (on_order_status_message s c f 0 fe) = bids s - {c} \<and>
            asks (on_order_status_message s c f 0 fe) = asks s - {c}) \<and>
         (c = 0 \<or> (c \<notin> bids s \<and> c \<notin> asks s) \<longrightarrow> on_error_message dec s c m = Inr s)"
  using assms status_ignores_volume_and_fees [of s c 0 0 0 f fe]
  by (simp add: on_error_message_def status_fields)

theorem error_terminates_tracked_order_witness:
  "decode_ascii [111, 114, 100, 101, 114] = Inr ''order'' \<and>
   ((2::int) \<noteq> 0 \<and> 2 \<in> asks quoted_state \<and>
      on_error_message decode_ascii quoted_state 2 [111, 114, 100, 101, 114] =
        Inr (on_order_status_message quoted_state 2 10 0 3) \<and>
      on_order_status_message quoted_state 2 10 0 3 = quoted_state\<lparr>ask_id := 0, asks := {}\<rparr>) \<and>
   (999 \<notin> bids quoted_state \<and> 999 \<notin> asks quoted_state \<and>
      on_error_message decode_ascii quoted_state 999 [111, 114, 100, 101, 114] =
        Inr quoted_state) \<and>
   on_error_message decode_ascii quoted_state 0 [111, 114, 100, 101, 114] = Inr quoted_state"
proof -
  have "on_order_status_message quoted_state 2 10 0 3 = quoted_state\<lparr>ask_id := 0, asks := {}\<rparr>"
    by (simp add: on_order_status_message_def quoted_state_def)
  then show ?thesis
    using error_terminates_tracked_order [of decode_ascii "[111, 114, 100, 101, 114]" "''order''"
        2 quoted_state 10 3, OF decode_ascii_text]
      error_terminates_tracked_order [of decode_ascii "[111, 114, 100, 101, 114]" "''order''"
        999 quoted_state 0 0, OF decode_ascii_text]
      error_terminates_tracked_order [of decode_ascii "[111, 114, 100, 101, 114]" "''order''"
        0 quoted_state 0 0, OF decode_ascii_text]
      decode_ascii_text
    by (simp add: quoted_state_def)
qed

text \<open>
  C9. In every state reachable from the initial one, no id is in both outstanding sets, a
  nonzero \<open>bid_id\<close> is in the outstanding buys, and a nonzero \<open>ask_id\<close> is in the
  outstanding sells.
\<close>

theorem sides_disjoint_slots_tracked:
  assumes "reachable fut dec s"
  shows "bids s \<inter> asks s = {} \<and>
         (bid_id s \<noteq> 0 \<longrightarrow> bid_id s \<in> bids s) \<and>
         (ask_id s \<noteq> 0 \<longrightarrow> ask_id s \<in> asks s)"
  using reachable_ids_ok [OF assms] by (simp add: ids_ok_def)

theorem sides_disjoint_slots_tracked_witness:
  "reachable 0 decode_ascii quoted_state \<and>
   bid_id quoted_state \<noteq> 0 \<and> ask_id quoted_state \<noteq> 0 \<and>
   bids quoted_state \<inter> asks quoted_state = {} \<and>
   bid_id quoted_state \<in> bids quoted_state \<and>
   ask_id quoted_state \<in> asks quoted_state"
  using sides_disjoint_slots_tracked [OF quoted_state_reachable] quoted_state_reachable
  by (simp add: quoted_state_def)

text \<open>
  C10. The host sends a notification for an order only after that order's insert, so the id
  of a notification is one that the counter has passed. In a reachable state, once a
  terminal order-status notification for such an id, or an error for a tracked id, has been
  processed, the id is in neither outstanding set after any further callbacks, and an
  order-filled notification for it leaves the position, and the whole state, unchanged: the
  counter only increases, so the id is never issued again.
\<close>

theorem late_fill_ignored:
  assumes "reachable fut dec s"
    and "(e = OrderStatus c f 0 fe \<and> c < order_ids s) \<or>
         (e = Error c m \<and> c \<noteq> 0 \<and> (c \<in> bids s \<or> c \<in> asks s))"
    and "handle fut dec s e = Inr (s1, cmds)"
    and "run fut dec s1 es = Inr s2"
  shows "c \<notin> bids s2 \<and> c \<notin> asks s2 \<and>
         on_order_filled_message s2 c p v = s2 \<and>
         position (on_order_filled_message s2 c p v) = position s2"
proof -
  have "spent s1 c"
    using assms(2)
  proof
    assume "e = OrderStatus c f 0 fe \<and> c < order_ids s"
    with assms(3) show ?thesis
      by (auto simp: handle_def terminal_status_spent)
  next
    assume a: "e = Error c m \<and> c \<noteq> 0 \<and> (c \<in> bids s \<or> c \<in> asks s)"
    then have "c < order_ids s"
      using tracked_below_counter [OF reachable_ids_ok [OF assms(1)]] by blast
    with a assms(3) show ?thesis
      by (auto simp: handle_def on_error_message_def terminal_status_spent split: sum.splits)
  qed
  then have "spent s2 c"
    using assms(4) by (rule run_spent)
  then show ?thesis
    by (simp add: spent_def on_order_filled_message_def)
qed

theorem late_fill_ignored_witness:
  "reachable 0 decode_ascii quoted_state \<and>
   1 < order_ids quoted_state \<and>
   handle 0 decode_ascii quoted_state (OrderStatus 1 10 0 0) =
     Inr (quoted_state\<lparr>bid_id := 0, bids := {}\<rparr>, []) \<and>
   run 0 decode_ascii (quoted_state\<lparr>bid_id := 0, bids := {}\<rparr>)
     [OrderBookUpdate 0 2 [10100] [5] [9900] [5]] = Inr rebid_state \<and>
   position (on_order_filled_message rebid_state 1 9900 10) = position rebid_state \<and>
   ((2::int) \<noteq> 0 \<and> 2 \<in> asks quoted_state) \<and>
   handle 0 decode_ascii quoted_state (Error 2 [111, 114, 100, 101, 114]) =
     Inr (quoted_state\<lparr>ask_id := 0, asks := {}\<rparr>, []) \<and>
   run 0 decode_ascii (quoted_state\<lparr>ask_id := 0, asks := {}\<rparr>)
     [TradeTicks 0 3 [10100] [5] [9900] [5]] = Inr (quoted_state\<lparr>ask_id := 0, asks := {}\<rparr>) \<and>
   position (on_order_filled_message (quoted_state\<lparr>ask_id := 0, asks := {}\<rparr>) 2 10100 10) =
     position (quoted_state\<lparr>ask_id := 0, asks := {}\<rparr>)"
proof -
  have a: "(OrderStatus 1 10 0 0 = OrderStatus 1 10 0 0 \<and> 1 < order_ids quoted_state) \<or>
       (OrderStatus 1 10 0 0 = Error 1 [] \<and> (1::int) \<noteq> 0 \<and>
          (1 \<in> bids quoted_state \<or> 1 \<in> asks quoted_state))"
    by (simp add: quoted_state_def)
  have b: "(Error 2 [111, 114, 100, 101, 114] = OrderStatus 2 0 0 0 \<and> 2 < order_ids quoted_state) \<or>
       (Error 2 [111, 114, 100, 101, 114] = Error 2 [111, 114, 100, 101, 114] \<and> (2::int) \<noteq> 0 \<and>
          (2 \<in> bids quoted_state \<or> 2 \<in> asks quoted_state))"
    by (simp add: quoted_state_def)
  show ?thesis
    using late_fill_ignored [OF quoted_state_reachable a status_then_book, of 9900 10]
      late_fill_ignored [OF quoted_state_reachable b error_then_tick, of 10100 10]
      quoted_state_reachable status_then_book error_then_tick
    by (simp add: quoted_state_def)
qed

end
